theory Spec2Isabelle
  imports Complex_Main
begin

section \<open>Data of \<open>src/app.py\<close>\<close>

text \<open>
  The value \<open>geolocator.geocode\<close> returns on a match: a geopy \<open>Location\<close>. The program
  reads only its \<open>latitude\<close> and \<open>longitude\<close>. A \<open>Location\<close> is truthy in Python, \<open>None\<close>
  is falsy, so \<open>if coords:\<close> is \<open>coords \<noteq> None\<close> on a \<open>location option\<close>.
\<close>

record location =
  latitude :: real
  longitude :: real

text \<open>
  The exceptions \<open>geolocator.geocode\<close> can raise, by the handler of \<open>geocode_location\<close>
  that catches them (lines 82 and 87); the string is \<open>str(e)\<close>. In \<open>geopy.exc\<close>,
  \<open>GeocoderServiceError\<close> is the base class of the service errors, so the handler of
  line 82 catches every subclass of it: \<open>GeocoderServiceError cls e\<close> is an instance of
  the class \<open>cls\<close>, the base class itself or one of its subclasses
  (\<open>GeocoderTimedOut\<close>, a subclass too, is kept apart as line 82 names it).
  \<open>OtherException\<close> is any exception that is not one of these (a \<open>ValueError\<close>, say).
\<close>

datatype service_error_class =
    ServiceErrorBase
  | GeocoderQueryError
  | GeocoderQuotaExceeded
  | GeocoderRateLimited
  | GeocoderAuthenticationFailure
  | GeocoderInsufficientPrivileges
  | GeocoderUnavailable
  | GeocoderParseError

datatype geopy_exc =
    GeocoderTimedOut string
  | GeocoderServiceError service_error_class string
  | OtherException string

datatype geocode_outcome =
    Returns "location option"
  | Raises geopy_exc

text \<open>
  The external geocoding service: the outcome of \<open>geolocator.geocode(name, timeout=t)\<close>
  when it is the \<open>n\<close>-th network call of the process (counted from 0).
\<close>

type_synonym geolocator = "string \<Rightarrow> int \<Rightarrow> nat \<Rightarrow> geocode_outcome"

text \<open>
  What the program writes to the page. The two sidebar messages keep the fields of their
  f-strings: (line 85) location name, \<open>retries\<close>, \<open>str(e)\<close>; (line 88) location name,
  \<open>str(e)\<close>.
\<close>

datatype sidebar_message =
    SidebarWarning string int string
  | SidebarError string string

record marker =
  position :: "real \<times> real"
  tooltip :: string
  icon_color :: "string option"

text \<open>
  The \<open>folium.Map\<close> built by lines 110 to 126: \<open>location\<close> and \<open>zoom_start\<close> of the
  constructor, the markers in the order they are added, and the argument of \<open>fit_bounds\<close>
  when it was called.
\<close>

record folium_map =
  map_location :: "real \<times> real"
  zoom_start :: int
  markers :: "marker list"
  fit_bounds :: "((real \<times> real) \<times> (real \<times> real)) option"

datatype element =
    StFolium folium_map
  | StMarkdown string
  | StInfo string

text \<open>
  An entry of the \<open>st.cache_data(ttl=3600)\<close> store of \<open>geocode_location\<close>: the value the
  function returned, the sidebar messages it wrote while it ran (replayed on a hit), and
  the time the entry stops being valid.
\<close>

record cache_entry =
  cached_value :: "location option"
  cached_messages :: "sidebar_message list"
  expires_at :: nat

text \<open>
  The state one run of \<open>main\<close> reads and writes: the clock (seconds), the seconds the
  \<open>n\<close>-th network call of the process takes (the environment decides, the program only
  waits), the names sent to the geocoding service so far (one per network call), the
  sidebar, the cache of \<open>geocode_location\<close> keyed by its argument, and
  \<open>st.session_state.itinerary\<close>.
\<close>

record world =
  clock :: nat
  latency :: "nat \<Rightarrow> nat"
  net_calls :: "string list"
  sidebar :: "sidebar_message list"
  cache :: "string \<Rightarrow> cache_entry option"
  itinerary :: "string option"

section \<open>\<open>geocode_location\<close> (lines 76 to 89)\<close>

text \<open>
  The loop \<open>for attempt in range(retries)\<close> from \<open>attempt\<close> on. Each iteration makes one
  network call, and the clock moves on by the time the call takes. A match or \<open>None\<close>
  is returned as it is; \<open>GeocoderTimedOut\<close> and \<open>GeocoderServiceError\<close> continue with
  the next attempt unless this was the last one, where the warning is written and \<open>None\<close> returned; any other exception leaves the loop
  for the outer handler, which writes the error and returns \<open>None\<close>. A loop that ends
  without a return (\<open>retries \<le> 0\<close>) falls off the function: \<open>None\<close>.
\<close>

function geocode_attempts ::
  "geolocator \<Rightarrow> string \<Rightarrow> int \<Rightarrow> int \<Rightarrow> int \<Rightarrow> world \<Rightarrow> location option \<times> world" where
  "geocode_attempts geo location_name retries timeout attempt w =
     (if attempt < retries then
        (let w1 = w\<lparr>net_calls := net_calls w @ [location_name],
                     clock := clock w + latency w (length (net_calls w))\<rparr> in
         case geo location_name timeout (length (net_calls w)) of
           Returns r \<Rightarrow> (r, w1)
         | Raises (GeocoderTimedOut e) \<Rightarrow>
             (if attempt < retries - 1
              then geocode_attempts geo location_name retries timeout (attempt + 1) w1
              else (None, w1\<lparr>sidebar := sidebar w1 @ [SidebarWarning location_name retries e]\<rparr>))
         | Raises (GeocoderServiceError cls e) \<Rightarrow>
             (if attempt < retries - 1
              then geocode_attempts geo location_name retries timeout (attempt + 1) w1
              else (None, w1\<lparr>sidebar := sidebar w1 @ [SidebarWarning location_name retries e]\<rparr>))
         | Raises (OtherException e) \<Rightarrow>
             (None, w1\<lparr>sidebar := sidebar w1 @ [SidebarError location_name e]\<rparr>))
      else (None, w))"
  by pat_completeness auto
termination
  by (relation "measure (\<lambda>(geo, location_name, retries, timeout, attempt, w). nat (retries - attempt))")
     auto

text \<open>The undecorated function body: the loop from attempt 0.\<close>

definition geocode_location_body ::
  "geolocator \<Rightarrow> string \<Rightarrow> int \<Rightarrow> int \<Rightarrow> world \<Rightarrow> location option \<times> world" where
  "geocode_location_body geo location_name retries timeout w =
     geocode_attempts geo location_name retries timeout 0 w"

text \<open>
  The decorated function, as \<open>main\<close> calls it (one argument, \<open>retries=3\<close>, \<open>timeout=10\<close>).
  \<open>st.cache_data(ttl=3600)\<close> keys the entry by the argument; an entry is valid while the
  clock is before its expiry. On a hit the stored value is returned and the stored
  messages replayed, the body does not run. On a miss the body runs and whatever it
  returns, \<open>None\<close> included, is stored; the entry is stamped when it is written, after
  the network calls: its expiry is the clock at that moment plus 3600. The function
  raises nothing: each failure path ends in \<open>return None\<close>, a value like any other for
  the decorator.
\<close>

definition ttl :: nat where
  "ttl = 3600"

definition cache_lookup :: "world \<Rightarrow> string \<Rightarrow> cache_entry option" where
  "cache_lookup w location_name =
     (case cache w location_name of
        None \<Rightarrow> None
      | Some e \<Rightarrow> if clock w < expires_at e then Some e else None)"

definition geocode_location :: "geolocator \<Rightarrow> string \<Rightarrow> world \<Rightarrow> location option \<times> world" where
  "geocode_location geo location_name w =
     (case cache_lookup w location_name of
        Some e \<Rightarrow> (cached_value e, w\<lparr>sidebar := sidebar w @ cached_messages e\<rparr>)
      | None \<Rightarrow>
          (let (r, w1) = geocode_location_body geo location_name 3 10 w;
               entry = \<lparr>cached_value = r,
                        cached_messages = drop (length (sidebar w)) (sidebar w1),
                        expires_at = clock w1 + ttl\<rparr>
           in (r, w1\<lparr>cache := (cache w1)(location_name := Some entry)\<rparr>)))"

section \<open>\<open>main\<close>, lines 91 to 133\<close>

text \<open>Lines 92 to 95 and 97 to 100: an empty input is not geocoded.\<close>

definition main_geocode :: "geolocator \<Rightarrow> string \<Rightarrow> world \<Rightarrow> location option \<times> world" where
  "main_geocode geo name w = (if name \<noteq> [] then geocode_location geo name w else (None, w))"

definition coords :: "location \<Rightarrow> real \<times> real" where
  "coords l = (latitude l, longitude l)"

text \<open>
  Lines 103 to 126: the map, or \<open>None\<close> when the condition of line 103 fails and no map
  is built.
\<close>

definition main_map ::
  "string \<Rightarrow> string \<Rightarrow> location option \<Rightarrow> location option \<Rightarrow> folium_map option" where
  "main_map starting_location destination starting_loc_coords destination_loc_coords =
     (if starting_loc_coords \<noteq> None \<or> destination_loc_coords \<noteq> None then
        (let map_center =
               (case destination_loc_coords of
                  Some d \<Rightarrow> coords d
                | None \<Rightarrow>
                    (case starting_loc_coords of
                       Some s \<Rightarrow> coords s
                     | None \<Rightarrow> (0, 0)));
             m0 = \<lparr>map_location = map_center, zoom_start = 10, markers = [], fit_bounds = None\<rparr>;
             m1 = (case starting_loc_coords of
                     Some s \<Rightarrow>
                       m0\<lparr>markers := markers m0 @
                            [\<lparr>position = coords s, tooltip = starting_location, icon_color = None\<rparr>]\<rparr>
                   | None \<Rightarrow> m0);
             m2 = (case destination_loc_coords of
                     Some d \<Rightarrow>
                       m1\<lparr>markers := markers m1 @
                            [\<lparr>position = coords d, tooltip = destination, icon_color = Some ''red''\<rparr>]\<rparr>
                   | None \<Rightarrow> m1);
             m3 = (case (starting_loc_coords, destination_loc_coords) of
                     (Some s, Some d) \<Rightarrow> m2\<lparr>fit_bounds := Some (coords s, coords d)\<rparr>
                   | _ \<Rightarrow> m2)
         in Some m3)
      else None)"

text \<open>
  Lines 103 to 133: what is put on the page under "Explore on Map". The itinerary is
  written inside the map block (line 129), when \<open>st.session_state.itinerary\<close> is truthy:
  neither \<open>None\<close> nor the empty string.
\<close>

definition main_display ::
  "string \<Rightarrow> string \<Rightarrow> location option \<Rightarrow> location option \<Rightarrow> string option \<Rightarrow> element list" where
  "main_display starting_location destination starting_loc_coords destination_loc_coords itin =
     (case main_map starting_location destination starting_loc_coords destination_loc_coords of
        Some m \<Rightarrow>
          StFolium m #
          (case itin of
             Some text \<Rightarrow> if text \<noteq> [] then [StMarkdown text] else []
           | None \<Rightarrow> [])
      | None \<Rightarrow> [StInfo ''Enter a starting location or destination to see the map.''])"

text \<open>Lines 91 to 133 together: both inputs are resolved, start first, then the page is written.\<close>

definition main_explore ::
  "geolocator \<Rightarrow> string \<Rightarrow> string \<Rightarrow> world \<Rightarrow> element list \<times> world" where
  "main_explore geo starting_location destination w =
     (let (starting_loc_coords, w1) = main_geocode geo starting_location w;
          (destination_loc_coords, w2) = main_geocode geo destination w1
      in (main_display starting_location destination starting_loc_coords destination_loc_coords
            (itinerary w2), w2))"

section \<open>\<open>geolocator.geocode\<close>: from the service's answer to a \<open>Location\<close>\<close>







section \<open>Vocabulary of the properties, and concrete inputs\<close>

text \<open>The outcomes of one attempt after which the loop goes on to the next attempt.\<close>

fun retryable :: "geocode_outcome \<Rightarrow> bool" where
  "retryable (Raises (GeocoderTimedOut e)) = True"
| "retryable (Raises (GeocoderServiceError cls e)) = True"
| "retryable _ = False"

text \<open>
  The two failures the specification names as retried: a timeout, and the service being
  unavailable.
\<close>

fun timeout_or_unavailable :: "geocode_outcome \<Rightarrow> bool" where
  "timeout_or_unavailable (Raises (GeocoderTimedOut e)) = True"
| "timeout_or_unavailable (Raises (GeocoderServiceError GeocoderUnavailable e)) = True"
| "timeout_or_unavailable _ = False"

definition paris :: location where
  "paris = \<lparr>latitude = 48.8566, longitude = 2.3522\<rparr>"

definition lyon :: location where
  "lyon = \<lparr>latitude = 45.764, longitude = 4.8357\<rparr>"

text \<open>A fresh process: nothing cached, nothing sent, no itinerary generated.\<close>

definition world0 :: world where
  "world0 = \<lparr>clock = 0, latency = (\<lambda>n. 0), net_calls = [], sidebar = [], cache = (\<lambda>name. None), itinerary = None\<rparr>"

text \<open>
  Geocoding services: one that knows two cities, one that times out twice before it
  answers, one that is down, one whose first call raises an unexpected exception, and one
  that finds every name.
\<close>

definition geo_atlas :: geolocator where
  "geo_atlas name timeout n =
     (if name = ''Paris'' then Returns (Some paris)
      else if name = ''Lyon'' then Returns (Some lyon)
      else Returns None)"

definition geo_flaky :: geolocator where
  "geo_flaky name timeout n =
     (if n < 2 then Raises (GeocoderTimedOut ''timed out'') else Returns (Some paris))"

definition geo_down :: geolocator where
  "geo_down name timeout n = Raises (GeocoderServiceError GeocoderUnavailable ''unavailable'')"

definition geo_broken :: geolocator where
  "geo_broken name timeout n =
     (if n = 0 then Raises (OtherException ''bad query'') else Returns (Some paris))"

definition geo_anywhere :: geolocator where
  "geo_anywhere name timeout n = Returns (Some paris)"

definition geo_bad_query :: geolocator where
  "geo_bad_query name timeout n = Raises (GeocoderServiceError GeocoderQueryError ''bad request'')"



text \<open>A process where every network call takes ten seconds.\<close>

definition world_slow :: world where
  "world_slow = world0\<lparr>latency := (\<lambda>n. 10)\<rparr>"

definition world_slow_atlantis_cached :: world where
  "world_slow_atlantis_cached = world_slow\<lparr>clock := 30,
        net_calls := [''Atlantis'', ''Atlantis'', ''Atlantis''],
        sidebar := [SidebarWarning ''Atlantis'' 3 ''unavailable''],
        cache := (cache world_slow)(''Atlantis'' := Some \<lparr>cached_value = None,
          cached_messages = [SidebarWarning ''Atlantis'' 3 ''unavailable''], expires_at = 3630\<rparr>)\<rparr>"

text \<open>States reached from \<open>world0\<close> by the runs used below.\<close>

definition world_paris_cached :: world where
  "world_paris_cached = world0\<lparr>net_calls := [''Paris''],
        cache := (cache world0)(''Paris'' := Some \<lparr>cached_value = Some paris, cached_messages = [],
          expires_at = 3600\<rparr>)\<rparr>"

definition world_atlantis_cached :: world where
  "world_atlantis_cached = world0\<lparr>net_calls := [''Atlantis'', ''Atlantis'', ''Atlantis''],
        sidebar := [SidebarWarning ''Atlantis'' 3 ''unavailable''],
        cache := (cache world0)(''Atlantis'' := Some \<lparr>cached_value = None,
          cached_messages = [SidebarWarning ''Atlantis'' 3 ''unavailable''], expires_at = 3600\<rparr>)\<rparr>"

definition world_both_cached :: world where
  "world_both_cached = world_paris_cached\<lparr>net_calls := [''Paris'', ''paris''],
        cache := (cache world_paris_cached)(''paris'' := Some \<lparr>cached_value = None,
          cached_messages = [], expires_at = 3600\<rparr>)\<rparr>"

text \<open>A session that holds a generated itinerary.\<close>

definition world_with_plan :: world where
  "world_with_plan = world0\<lparr>itinerary := Some ''Day 1: Louvre''\<rparr>"

section \<open>Lemmas on the retry loop\<close>

declare geocode_attempts.simps [simp del]

lemma geocode_attempts_frame:
  "geocode_attempts geo q retries t a w = (r, w') \<Longrightarrow>
     clock w \<le> clock w' \<and> latency w' = latency w \<and> cache w' = cache w
       \<and> itinerary w' = itinerary w"
proof (induction geo q retries t a w rule: geocode_attempts.induct)
  case (1 geo q retries t a w)
  show ?case
    using "1.prems" "1.IH" (1) [OF _ refl _ refl] "1.IH" (2) [OF _ refl _ refl]
    by (subst (asm) geocode_attempts.simps)
       (auto simp: Let_def split: if_splits geocode_outcome.splits geopy_exc.splits)
qed

lemma geocode_attempts_found_silent:
  "geocode_attempts geo q retries t a w = (Some c, w') \<Longrightarrow> sidebar w' = sidebar w"
proof (induction geo q retries t a w rule: geocode_attempts.induct)
  case (1 geo q retries t a w)
  show ?case
    using "1.prems" "1.IH"
    by (subst (asm) geocode_attempts.simps)
       (auto simp: Let_def split: if_splits geocode_outcome.splits geopy_exc.splits)
qed

lemma world_update_swap:
  "(w\<lparr>cache := c\<rparr>)\<lparr>net_calls := n, clock := k\<rparr> = (w\<lparr>net_calls := n, clock := k\<rparr>)\<lparr>cache := c\<rparr>"
  by simp

lemma geocode_attempts_cache_indep:
  "geocode_attempts geo q retries t a (w\<lparr>cache := c\<rparr>) =
     (fst (geocode_attempts geo q retries t a w), (snd (geocode_attempts geo q retries t a w))\<lparr>cache := c\<rparr>)"
proof (induction geo q retries t a w rule: geocode_attempts.induct)
  case (1 geo q retries t a w)
  show ?case
    using "1.IH"
    by (auto simp: geocode_attempts.simps [of geo q retries t a w]
          geocode_attempts.simps [of geo q retries t a "w\<lparr>cache := c\<rparr>"] Let_def
          world_update_swap
          simp del: world.update_convs
          split: if_splits geocode_outcome.splits geopy_exc.splits)
qed

lemma geocode_attempts_policy:
  "geocode_attempts geo q retries t a w = (r, w') \<Longrightarrow>
   \<exists>k. net_calls w' = net_calls w @ replicate k q \<and> int k \<le> max 0 (retries - a)
     \<and> (\<forall>i. i + 1 < k \<longrightarrow> retryable (geo q t (length (net_calls w) + i)))
     \<and> (\<forall>i<k. \<forall>e. geo q t (length (net_calls w) + i) = Raises (OtherException e) \<longrightarrow>
           i + 1 = k \<and> r = None \<and> sidebar w' = sidebar w @ [SidebarError q e])"
proof (induction geo q retries t a w arbitrary: r w' rule: geocode_attempts.induct)
  case (1 geo q retries t a w)
  show ?case
  proof (cases "a < retries")
    case False
    with "1.prems" show ?thesis
      by (simp add: geocode_attempts.simps [of geo q retries t a w])
  next
    case True
    show ?thesis
    proof (cases "geo q t (length (net_calls w))")
      case (Returns x)
      with True "1.prems" have "net_calls w' = net_calls w @ [q]"
        by (auto simp add: geocode_attempts.simps [of geo q retries t a w] Let_def)
      with True Returns show ?thesis
        by (intro exI [of _ 1]) auto
    next
      case (Raises x)
      let ?w1 = "w\<lparr>net_calls := net_calls w @ [q],
        clock := clock w + latency w (length (net_calls w))\<rparr>"
      let ?n = "length (net_calls w)"
      have last_attempt: ?thesis
        if w'_def: "net_calls w' = net_calls w @ [q]" and no_other: "\<And>e. x \<noteq> OtherException e"
      proof (intro exI [of _ 1] conjI allI impI)
        show "net_calls w' = net_calls w @ replicate 1 q" using w'_def by simp
        show "int 1 \<le> max 0 (retries - a)" using True by simp
      qed (use Raises no_other in auto)
      have retry: ?thesis
        if rec: "geocode_attempts geo q retries t (a + 1) ?w1 = (r, w')"
          and less: "a < retries - 1" and retr: "retryable (Raises x)"
          and ih: "\<And>r w'. geocode_attempts geo q retries t (a + 1) ?w1 = (r, w') \<Longrightarrow>
            \<exists>k. net_calls w' = net_calls ?w1 @ replicate k q \<and> int k \<le> max 0 (retries - (a + 1))
              \<and> (\<forall>i. i + 1 < k \<longrightarrow> retryable (geo q t (length (net_calls ?w1) + i)))
              \<and> (\<forall>i<k. \<forall>e. geo q t (length (net_calls ?w1) + i) = Raises (OtherException e) \<longrightarrow>
                    i + 1 = k \<and> r = None \<and> sidebar w' = sidebar ?w1 @ [SidebarError q e])"
      proof -
        from ih [OF rec] obtain k where
          k1: "net_calls w' = net_calls ?w1 @ replicate k q"
          and k2: "int k \<le> max 0 (retries - (a + 1))"
          and k3: "\<And>i. i + 1 < k \<Longrightarrow> retryable (geo q t (length (net_calls ?w1) + i))"
          and k4: "\<And>i e. i < k \<Longrightarrow> geo q t (length (net_calls ?w1) + i) = Raises (OtherException e) \<Longrightarrow>
                    i + 1 = k \<and> r = None \<and> sidebar w' = sidebar ?w1 @ [SidebarError q e]"
          by blast
        show ?thesis
        proof (intro exI [of _ "Suc k"] conjI allI impI)
          show "net_calls w' = net_calls w @ replicate (Suc k) q" using k1 by simp
          show "int (Suc k) \<le> max 0 (retries - a)" using k2 less by simp
        next
          fix i assume "i + 1 < Suc k"
          then show "retryable (geo q t (?n + i))"
            using k3 [of "i - 1"] retr Raises by (cases i) auto
        next
          fix i e
          assume i: "i < Suc k" and o: "geo q t (?n + i) = Raises (OtherException e)"
          from o retr Raises obtain j where j: "i = Suc j" by (cases i) auto
          with i o k4 [of j e] show "i + 1 = Suc k" by simp
          from j i o k4 [of j e] show "r = None" by simp
          from j i o k4 [of j e] show "sidebar w' = sidebar w @ [SidebarError q e]" by simp
        qed
      qed
      show ?thesis
      proof (cases x)
        case (GeocoderTimedOut e)
        show ?thesis
        proof (cases "a < retries - 1")
          case less: True
          with True Raises GeocoderTimedOut "1.prems"
          have "geocode_attempts geo q retries t (a + 1) ?w1 = (r, w')"
            by (simp add: geocode_attempts.simps [of geo q retries t a w] Let_def)
          then show ?thesis
            using less GeocoderTimedOut "1.IH" (1) [OF True refl Raises GeocoderTimedOut less]
            by (intro retry) auto
        next
          case False
          with True Raises GeocoderTimedOut "1.prems" show ?thesis
            by (intro last_attempt) (auto simp: geocode_attempts.simps [of geo q retries t a w] Let_def)
        qed
      next
        case (GeocoderServiceError e)
        show ?thesis
        proof (cases "a < retries - 1")
          case less: True
          with True Raises GeocoderServiceError "1.prems"
          have "geocode_attempts geo q retries t (a + 1) ?w1 = (r, w')"
            by (simp add: geocode_attempts.simps [of geo q retries t a w] Let_def)
          then show ?thesis
            using less GeocoderServiceError "1.IH" (2) [OF True refl Raises GeocoderServiceError less]
            by (intro retry) auto
        next
          case False
          with True Raises GeocoderServiceError "1.prems" show ?thesis
            by (intro last_attempt) (auto simp: geocode_attempts.simps [of geo q retries t a w] Let_def)
        qed
      next
        case (OtherException e)
        with True Raises "1.prems"
        have "r = None" and "w' = ?w1\<lparr>sidebar := sidebar ?w1 @ [SidebarError q e]\<rparr>"
          by (simp_all add: geocode_attempts.simps [of geo q retries t a w] Let_def)
        with True Raises OtherException show ?thesis
          by (intro exI [of _ 1]) auto
      qed
    qed
  qed
qed

section \<open>Lemmas on the cached function\<close>

lemma geocode_location_hit:
  "cache_lookup w q = Some e \<Longrightarrow>
     geocode_location geo q w = (cached_value e, w\<lparr>sidebar := sidebar w @ cached_messages e\<rparr>)"
  by (simp add: geocode_location_def)

lemma geocode_location_miss:
  assumes "cache_lookup w q = None" and "geocode_location_body geo q 3 10 w = (r, wb)"
  shows "geocode_location geo q w =
    (r, wb\<lparr>cache := (cache w)(q := Some \<lparr>cached_value = r,
        cached_messages = drop (length (sidebar w)) (sidebar wb), expires_at = clock wb + 3600\<rparr>)\<rparr>)"
  using assms geocode_attempts_frame [of geo q 3 10 0 w r wb]
  by (simp add: geocode_location_def geocode_location_body_def ttl_def)

lemma geocode_location_itinerary:
  "geocode_location geo q w = (r, w') \<Longrightarrow> itinerary w' = itinerary w"
proof (cases "cache_lookup w q")
  case None
  obtain rb wb where b: "geocode_location_body geo q 3 10 w = (rb, wb)" by force
  assume "geocode_location geo q w = (r, w')"
  with geocode_location_miss [OF None b] geocode_attempts_frame [of geo q 3 10 0 w rb wb] b
  show ?thesis by (auto simp: geocode_location_body_def)
next
  case (Some e)
  assume "geocode_location geo q w = (r, w')"
  with geocode_location_hit [OF Some, of geo] show ?thesis by auto
qed

lemma main_geocode_itinerary:
  "main_geocode geo q w = (r, w') \<Longrightarrow> itinerary w' = itinerary w"
  using geocode_location_itinerary [of geo q w r w']
  by (auto simp: main_geocode_def split: if_splits)

text \<open>What a miss stores, and what a later call within the hour does with it.\<close>

lemma miss_stores_result:
  assumes miss: "cache_lookup w q = None" and res: "geocode_location geo q w = (r, w1)"
  shows "\<exists>msgs. cache w1 = (cache w)(q := Some \<lparr>cached_value = r, cached_messages = msgs,
            expires_at = clock w1 + 3600\<rparr>) \<and> (r \<noteq> None \<longrightarrow> msgs = []) \<and> clock w \<le> clock w1"
proof -
  obtain rb wb where b: "geocode_location_body geo q 3 10 w = (rb, wb)" by force
  from geocode_location_miss [OF miss b] res have r: "rb = r"
    and w1: "w1 = wb\<lparr>cache := (cache w)(q := Some \<lparr>cached_value = r,
        cached_messages = drop (length (sidebar w)) (sidebar wb), expires_at = clock wb + 3600\<rparr>)\<rparr>"
    by auto
  have "r \<noteq> None \<longrightarrow> drop (length (sidebar w)) (sidebar wb) = []"
    using b r geocode_attempts_found_silent [of geo q 3 10 0 w _ wb]
    by (auto simp: geocode_location_body_def)
  moreover have "clock w \<le> clock wb"
    using b geocode_attempts_frame [of geo q 3 10 0 w rb wb]
    by (simp add: geocode_location_body_def)
  ultimately show ?thesis using w1 by auto
qed

lemma valid_entry_hit:
  assumes "cache w2 q = Some e" and "clock w2 < expires_at e"
  shows "geocode_location geo q w2 = (cached_value e, w2\<lparr>sidebar := sidebar w2 @ cached_messages e\<rparr>)"
  using assms by (intro geocode_location_hit) (simp add: cache_lookup_def)

lemma other_key_untouched:
  assumes "x \<noteq> y" and "geocode_location geo y w = (r, w')"
  shows "cache w' x = cache w x"
proof (cases "cache_lookup w y")
  case None
  from miss_stores_result [OF None assms(2)] assms(1) show ?thesis by auto
next
  case (Some e)
  from geocode_location_hit [OF Some, of geo] assms(2) show ?thesis by auto
qed

lemma other_key_irrelevant:
  assumes "x \<noteq> y" and "geocode_location geo y w = (r, w')"
  shows "geocode_location geo y (w\<lparr>cache := (cache w)(x := e)\<rparr>) = (r, w'\<lparr>cache := (cache w')(x := e)\<rparr>)"
proof (cases "cache_lookup w y")
  case None
  obtain rb wb where b: "geocode_location_body geo y 3 10 w = (rb, wb)" by force
  let ?w = "w\<lparr>cache := (cache w)(x := e)\<rparr>"
  have miss': "cache_lookup ?w y = None"
    using None assms(1) by (simp add: cache_lookup_def cong: option.case_cong)
  have b': "geocode_location_body geo y 3 10 ?w = (rb, wb\<lparr>cache := (cache w)(x := e)\<rparr>)"
    using b by (simp add: geocode_location_body_def geocode_attempts_cache_indep)
  from geocode_location_miss [OF None b] assms(2)
  have "r = rb" and "w' = wb\<lparr>cache := (cache w)(y := Some \<lparr>cached_value = rb,
        cached_messages = drop (length (sidebar w)) (sidebar wb), expires_at = clock wb + 3600\<rparr>)\<rparr>"
    by auto
  with geocode_location_miss [OF miss' b'] assms(1) show ?thesis
    by (simp add: fun_upd_twist)
next
  case (Some en)
  let ?w = "w\<lparr>cache := (cache w)(x := e)\<rparr>"
  have hit': "cache_lookup ?w y = Some en"
    using Some assms(1) by (simp add: cache_lookup_def cong: option.case_cong)
  from geocode_location_hit [OF Some, of geo] geocode_location_hit [OF hit', of geo] assms(2)
  show ?thesis by auto
qed

lemma body_not_found:
  "geo q 10 (length (net_calls w)) = Returns None \<Longrightarrow>
     geocode_location_body geo q 3 10 w =
       (None, w\<lparr>net_calls := net_calls w @ [q],
                 clock := clock w + latency w (length (net_calls w))\<rparr>)"
  by (simp add: geocode_location_body_def geocode_attempts.simps [of geo q 3 10 0 w])

lemma body_other_exception:
  "geo q 10 (length (net_calls w)) = Raises (OtherException e) \<Longrightarrow>
     fst (geocode_location_body geo q 3 10 w) = None"
  by (simp add: geocode_location_body_def geocode_attempts.simps [of geo q 3 10 0 w])

lemma geocode_attempts_exhausted:
  "(\<And>i. int i < retries - a \<Longrightarrow> retryable (geo q t (length (net_calls w) + i))) \<Longrightarrow>
     fst (geocode_attempts geo q retries t a w) = None"
proof (induction geo q retries t a w rule: geocode_attempts.induct)
  case (1 geo q retries t a w)
  let ?w1 = "w\<lparr>net_calls := net_calls w @ [q]\<rparr>"
  show ?case
  proof (cases "a < retries")
    case False
    then show ?thesis by (simp add: geocode_attempts.simps [of geo q retries t a w])
  next
    case True
    from "1.prems" [of 0] True have r0: "retryable (geo q t (length (net_calls w)))" by simp
    have next_ok: "retryable (geo q t (length (net_calls ?w1) + i))" if "int i < retries - (a + 1)" for i
      using "1.prems" [of "Suc i"] that by simp
    from r0 show ?thesis
    proof (cases "geo q t (length (net_calls w))" rule: retryable.cases)
      case (1 e)
      with True "1.IH" (1) [OF True refl 1 refl] next_ok show ?thesis
        by (simp add: geocode_attempts.simps [of geo q retries t a w] Let_def)
    next
      case (2 e)
      with True "1.IH" (2) [OF True refl 2 refl] next_ok show ?thesis
        by (simp add: geocode_attempts.simps [of geo q retries t a w] Let_def)
    qed auto
  qed
qed

lemma body_exhausted:
  "(\<And>i. i < 3 \<Longrightarrow> retryable (geo q 10 (length (net_calls w) + i))) \<Longrightarrow>
     fst (geocode_location_body geo q 3 10 w) = None"
  unfolding geocode_location_body_def
  by (rule geocode_attempts_exhausted) simp

lemma miss_result:
  assumes "q \<noteq> []" and "cache_lookup w q = None" and "geocode_location_body geo q 3 10 w = (r, wb)"
  shows "fst (main_geocode geo q w) = r"
    and "net_calls (snd (main_geocode geo q w)) = net_calls wb"
    and "sidebar (snd (main_geocode geo q w)) = sidebar wb"
  using geocode_location_miss [OF assms(2,3)] assms(1) by (simp_all add: main_geocode_def)

lemma world0_miss: "cache_lookup world0 q = None"
  by (simp add: cache_lookup_def world0_def)

lemma main_geocode_nonempty:
  "main_geocode geo q w = (Some c, w1) \<Longrightarrow> q \<noteq> [] \<and> geocode_location geo q w = (Some c, w1)"
  by (auto simp: main_geocode_def split: if_splits)

lemma cache_hit_again:
  assumes miss: "cache_lookup w x = None" and res: "main_geocode geo x w = (Some c, w1)"
    and same: "cache w2 x = cache w1 x" and within: "clock w2 < clock w + 3600"
  shows "main_geocode geo' x w2 = (Some c, w2)"
proof -
  from main_geocode_nonempty [OF res] have ne: "x \<noteq> []"
    and gl: "geocode_location geo x w = (Some c, w1)" by simp_all
  from miss_stores_result [OF miss gl] same
  have entry: "cache w2 x = Some \<lparr>cached_value = Some c, cached_messages = [],
      expires_at = clock w1 + 3600\<rparr>" and later: "clock w \<le> clock w1"
    by auto
  from valid_entry_hit [OF entry, of geo'] within later ne show ?thesis
    by (simp add: main_geocode_def)
qed

lemma main_geocode_other_key:
  assumes "x \<noteq> y" and "main_geocode geo y w = (r, w')"
  shows "cache w' x = cache w x
    \<and> main_geocode geo y (w\<lparr>cache := (cache w)(x := e)\<rparr>) = (r, w'\<lparr>cache := (cache w')(x := e)\<rparr>)"
proof (cases "y = []")
  case True
  with assms show ?thesis by (auto simp: main_geocode_def)
next
  case False
  with assms(2) have gl: "geocode_location geo y w = (r, w')"
    by (simp add: main_geocode_def)
  from other_key_untouched [OF assms(1) gl] other_key_irrelevant [OF assms(1) gl, of e] False
  show ?thesis by (simp add: main_geocode_def)
qed

lemma stored_entry_replayed:
  assumes ne: "q \<noteq> []" and entry: "cache w2 q = Some e" and valid: "clock w2 < expires_at e"
  shows "main_geocode geo' q w2 = (cached_value e, w2\<lparr>sidebar := sidebar w2 @ cached_messages e\<rparr>)"
  using valid_entry_hit [OF entry valid, of geo'] ne by (simp add: main_geocode_def)



section \<open>Lemmas on geopy's coordinates\<close>






section \<open>Concrete runs\<close>

lemma run_atlas_paris:
  "main_geocode geo_atlas ''Paris'' world0 =
     (Some paris, world0\<lparr>net_calls := [''Paris''],
        cache := (cache world0)(''Paris'' := Some \<lparr>cached_value = Some paris, cached_messages = [],
          expires_at = 3600\<rparr>)\<rparr>)"
  by (simp add: main_geocode_def geocode_location_def cache_lookup_def geocode_location_body_def
        geocode_attempts.simps geo_atlas_def world0_def ttl_def)

lemma run_down_atlantis:
  "main_geocode geo_down ''Atlantis'' world0 =
     (None, world0\<lparr>net_calls := [''Atlantis'', ''Atlantis'', ''Atlantis''],
        sidebar := [SidebarWarning ''Atlantis'' 3 ''unavailable''],
        cache := (cache world0)(''Atlantis'' := Some \<lparr>cached_value = None,
          cached_messages = [SidebarWarning ''Atlantis'' 3 ''unavailable''], expires_at = 3600\<rparr>)\<rparr>)"
  by (simp add: main_geocode_def geocode_location_def cache_lookup_def geocode_location_body_def
        geocode_attempts.simps geo_down_def world0_def ttl_def)

lemma run_atlas_lowercase_after:
  "main_geocode geo_atlas ''paris'' world_paris_cached = (None, world_both_cached)"
  by (simp add: main_geocode_def geocode_location_def cache_lookup_def geocode_location_body_def
        geocode_attempts.simps geo_atlas_def world0_def ttl_def world_paris_cached_def
        world_both_cached_def)

lemma world_slow_miss: "cache_lookup world_slow q = None"
  by (simp add: cache_lookup_def world_slow_def world0_def)

lemma run_down_atlantis_slow:
  "main_geocode geo_down ''Atlantis'' world_slow = (None, world_slow_atlantis_cached)"
  by (simp add: main_geocode_def geocode_location_def cache_lookup_def geocode_location_body_def
        geocode_attempts.simps geo_down_def world_slow_def world_slow_atlantis_cached_def
        world0_def ttl_def)

section \<open>The claims\<close>

text \<open>
  Claim C1, as amended. The itinerary is written inside the map block (line 129). So a
  session that holds a non-empty itinerary sees it displayed, after the map, whenever at
  least one of the two names resolved to a coordinate: the failure of one resolution does
  not block it. When neither resolved, the page shows the informational prompt only.
\<close>

theorem itinerary_shown_with_map:
  assumes "itinerary w = Some text" and "text \<noteq> []"
    and "main_geocode geo starting_location w = (s, w1)"
    and "main_geocode geo destination w1 = (d, w2)"
  shows "(s \<noteq> None \<or> d \<noteq> None \<longrightarrow>
            (\<exists>m. fst (main_explore geo starting_location destination w) = [StFolium m, StMarkdown text]))
     \<and> (s = None \<and> d = None \<longrightarrow>
            fst (main_explore geo starting_location destination w) =
              [StInfo ''Enter a starting location or destination to see the map.''])"
proof -
  from main_geocode_itinerary [OF assms(3)] main_geocode_itinerary [OF assms(4)] assms(1)
  have it: "itinerary w2 = Some text" by simp
  have ex: "fst (main_explore geo starting_location destination w) =
      main_display starting_location destination s d (Some text)"
    using assms(3,4) it by (simp add: main_explore_def)
  show ?thesis
    unfolding ex using assms(2)
    by (cases s; cases d) (simp_all add: main_display_def main_map_def)
qed

text \<open>
  Claim C1 as stated fails: the session holds an itinerary, neither name is found, and
  the page shows the prompt and no itinerary.
\<close>

theorem itinerary_hidden_counterexample:
  "itinerary world_with_plan = Some ''Day 1: Louvre''
   \<and> fst (main_geocode geo_atlas ''Atlantis'' world_with_plan) = None
   \<and> fst (main_geocode geo_atlas ''Lemuria'' (snd (main_geocode geo_atlas ''Atlantis'' world_with_plan))) = None
   \<and> fst (main_explore geo_atlas ''Atlantis'' ''Lemuria'' world_with_plan) =
       [StInfo ''Enter a starting location or destination to see the map.'']"
  by (simp add: main_explore_def main_display_def main_map_def main_geocode_def
        geocode_location_def cache_lookup_def geocode_location_body_def geocode_attempts.simps
        geo_atlas_def world_with_plan_def world0_def ttl_def)

theorem itinerary_shown_with_map_witness:
  "itinerary world_with_plan = Some ''Day 1: Louvre'' \<and> ''Day 1: Louvre'' \<noteq> []
   \<and> fst (main_geocode geo_atlas ''Atlantis'' world_with_plan) = None
   \<and> fst (main_geocode geo_atlas ''Paris'' (snd (main_geocode geo_atlas ''Atlantis'' world_with_plan))) = Some paris
   \<and> (\<exists>m. fst (main_explore geo_atlas ''Atlantis'' ''Paris'' world_with_plan) =
         [StFolium m, StMarkdown ''Day 1: Louvre''])"
proof -
  have h1: "itinerary world_with_plan = Some ''Day 1: Louvre''"
    by (simp add: world_with_plan_def)
  have h2: "''Day 1: Louvre'' \<noteq> []" by simp
  obtain w1 where h3: "main_geocode geo_atlas ''Atlantis'' world_with_plan = (None, w1)"
    by (simp add: main_geocode_def geocode_location_def cache_lookup_def geocode_location_body_def
        geocode_attempts.simps geo_atlas_def world_with_plan_def world0_def ttl_def)
  obtain w2 where h4: "main_geocode geo_atlas ''Paris'' w1 = (Some paris, w2)"
    using h3
    by (auto simp add: main_geocode_def geocode_location_def cache_lookup_def geocode_location_body_def
        geocode_attempts.simps geo_atlas_def world_with_plan_def world0_def ttl_def)
  from itinerary_shown_with_map [OF h1 h2 h3 h4] h1 h2 h3 h4
  show ?thesis by simp
qed

text \<open>
  Claim C2, as amended. \<open>geocode_location\<close> returns \<open>None\<close> on every failure path (lines 86
  and 89, and a service answer with no match) and raises nothing, and the cache stores
  what the function returns. So every result of a lookup for a non-empty name is cached, a
  failure as well as a coordinate: the entry is written under the exact name when the
  function returns, after the network calls, with expiry 3600 seconds after that moment,
  and no other entry changes; and a later resolution of that name in any state that holds
  the entry, before that expiry, returns the stored result and changes nothing but the
  sidebar (the stored messages): no network call.
\<close>

theorem every_result_is_cached:
  assumes "q \<noteq> []" and "cache_lookup w q = None" and "main_geocode geo q w = (r, w1)"
  shows "(\<exists>msgs. cache w1 = (cache w)(q := Some \<lparr>cached_value = r, cached_messages = msgs,
              expires_at = clock w1 + 3600\<rparr>))
     \<and> clock w \<le> clock w1
     \<and> (\<forall>w2 geo'. cache w2 q = cache w1 q \<and> clock w2 < clock w1 + 3600 \<longrightarrow>
           (\<exists>msgs. main_geocode geo' q w2 = (r, w2\<lparr>sidebar := sidebar w2 @ msgs\<rparr>)))"
proof -
  from assms have gl: "geocode_location geo q w = (r, w1)" by (simp add: main_geocode_def)
  from miss_stores_result [OF assms(2) gl] obtain msgs where
    c: "cache w1 = (cache w)(q := Some \<lparr>cached_value = r, cached_messages = msgs,
              expires_at = clock w1 + 3600\<rparr>)" and later: "clock w \<le> clock w1" by blast
  have "\<exists>m. main_geocode geo' q w2 = (r, w2\<lparr>sidebar := sidebar w2 @ m\<rparr>)"
    if "cache w2 q = cache w1 q" and "clock w2 < clock w1 + 3600" for w2 geo'
    using stored_entry_replayed [OF assms(1), of w2 "\<lparr>cached_value = r, cached_messages = msgs,
              expires_at = clock w1 + 3600\<rparr>" geo'] that c
    by auto
  with c later show ?thesis by blast
qed

theorem every_result_is_cached_witness:
  "''Atlantis'' \<noteq> [] \<and> cache_lookup world_slow ''Atlantis'' = None
   \<and> main_geocode geo_down ''Atlantis'' world_slow = (None, world_slow_atlantis_cached)
   \<and> clock world_slow = 0 \<and> clock world_slow_atlantis_cached = 30
   \<and> (\<exists>msgs. cache world_slow_atlantis_cached = (cache world_slow)(''Atlantis'' :=
          Some \<lparr>cached_value = None, cached_messages = msgs,
                expires_at = clock world_slow_atlantis_cached + 3600\<rparr>))
   \<and> clock world_slow \<le> clock world_slow_atlantis_cached
   \<and> cache (world_slow_atlantis_cached\<lparr>clock := 3605\<rparr>) ''Atlantis'' =
       cache world_slow_atlantis_cached ''Atlantis''
   \<and> clock (world_slow_atlantis_cached\<lparr>clock := 3605\<rparr>) < clock world_slow_atlantis_cached + 3600
   \<and> (\<exists>msgs. main_geocode geo_anywhere ''Atlantis'' (world_slow_atlantis_cached\<lparr>clock := 3605\<rparr>) =
         (None, world_slow_atlantis_cached\<lparr>clock := 3605,
            sidebar := sidebar (world_slow_atlantis_cached\<lparr>clock := 3605\<rparr>) @ msgs\<rparr>))"
proof -
  have h1: "''Atlantis'' \<noteq> []" by simp
  note h3 = run_down_atlantis_slow
  have h4: "cache (world_slow_atlantis_cached\<lparr>clock := 3605\<rparr>) ''Atlantis'' =
       cache world_slow_atlantis_cached ''Atlantis''" by simp
  have h5: "clock (world_slow_atlantis_cached\<lparr>clock := 3605\<rparr>) < clock world_slow_atlantis_cached + 3600"
    by (simp add: world_slow_atlantis_cached_def)
  have h6: "clock world_slow = 0" "clock world_slow_atlantis_cached = 30"
    by (simp_all add: world_slow_def world0_def world_slow_atlantis_cached_def)
  from every_result_is_cached [OF h1 world_slow_miss h3] h1 h3 h4 h5 h6
    world_slow_miss [of "''Atlantis''"]
  show ?thesis by blast
qed

text \<open>
  Claim C2 as stated fails: the service is down, the three attempts are exhausted and
  \<open>None\<close> is returned; an entry for the name is written; and a second resolution, at
  the same time and with a service that would now answer, returns the cached \<open>None\<close>
  without a network call.
\<close>

theorem failure_is_cached_counterexample:
  "''Atlantis'' \<noteq> []
   \<and> main_geocode geo_down ''Atlantis'' world0 = (None, world_atlantis_cached)
   \<and> cache world0 ''Atlantis'' = None
   \<and> cache world_atlantis_cached ''Atlantis'' =
       Some \<lparr>cached_value = None,
             cached_messages = [SidebarWarning ''Atlantis'' 3 ''unavailable''],
             expires_at = 3600\<rparr>
   \<and> clock world_atlantis_cached < 3600
   \<and> geo_anywhere ''Atlantis'' 10 (length (net_calls world_atlantis_cached)) = Returns (Some paris)
   \<and> fst (main_geocode geo_anywhere ''Atlantis'' world_atlantis_cached) = None
   \<and> net_calls (snd (main_geocode geo_anywhere ''Atlantis'' world_atlantis_cached)) =
       net_calls world_atlantis_cached"
proof -
  have "main_geocode geo_down ''Atlantis'' world0 = (None, world_atlantis_cached)"
    unfolding world_atlantis_cached_def by (rule run_down_atlantis)
  moreover have "main_geocode geo_anywhere ''Atlantis'' world_atlantis_cached =
      (None, world_atlantis_cached\<lparr>sidebar := sidebar world_atlantis_cached @
          [SidebarWarning ''Atlantis'' 3 ''unavailable'']\<rparr>)"
    by (simp add: main_geocode_def geocode_location_def cache_lookup_def world_atlantis_cached_def
          world0_def)
  ultimately show ?thesis
    by (simp add: world_atlantis_cached_def world0_def geo_anywhere_def)
qed




text \<open>
  Claim C4, as amended. Whatever the service answers, \<open>geocode_location\<close> sends the name at
  most \<open>retries\<close> times (3 as \<open>main\<close> calls it) and nothing else; every attempt but the
  last one made ended in \<open>GeocoderTimedOut\<close> or in a \<open>GeocoderServiceError\<close> of any class
  (unavailable, but also query, quota, authentication and parse errors), so only those
  are retried; and an attempt that raises any other exception is the last one: the result
  is \<open>None\<close> and the error is written to the sidebar at once.
\<close>

theorem geocode_location_retry_policy:
  assumes "geocode_location_body geo q retries timeout w = (r, w')"
  shows "\<exists>k. net_calls w' = net_calls w @ replicate k q \<and> int k \<le> max 0 retries
     \<and> (\<forall>i. i + 1 < k \<longrightarrow> retryable (geo q timeout (length (net_calls w) + i)))
     \<and> (\<forall>i<k. \<forall>e. geo q timeout (length (net_calls w) + i) = Raises (OtherException e) \<longrightarrow>
           i + 1 = k \<and> r = None \<and> sidebar w' = sidebar w @ [SidebarError q e])"
  using geocode_attempts_policy [of geo q retries timeout 0 w r w'] assms
  by (simp add: geocode_location_body_def)

theorem geocode_location_retry_policy_witness:
  "geocode_location_body geo_flaky ''Paris'' 3 10 world0 =
     (Some paris, world0\<lparr>net_calls := [''Paris'', ''Paris'', ''Paris'']\<rparr>)
   \<and> (\<exists>k. net_calls (world0\<lparr>net_calls := [''Paris'', ''Paris'', ''Paris'']\<rparr>) =
            net_calls world0 @ replicate k ''Paris'' \<and> int k \<le> max 0 3
     \<and> (\<forall>i. i + 1 < k \<longrightarrow> retryable (geo_flaky ''Paris'' 10 (length (net_calls world0) + i)))
     \<and> (\<forall>i<k. \<forall>e. geo_flaky ''Paris'' 10 (length (net_calls world0) + i) = Raises (OtherException e) \<longrightarrow>
           i + 1 = k \<and> Some paris = None \<and>
           sidebar (world0\<lparr>net_calls := [''Paris'', ''Paris'', ''Paris'']\<rparr>) =
             sidebar world0 @ [SidebarError ''Paris'' e]))"
proof -
  have run: "geocode_location_body geo_flaky ''Paris'' 3 10 world0 =
     (Some paris, world0\<lparr>net_calls := [''Paris'', ''Paris'', ''Paris'']\<rparr>)"
    by (simp add: geocode_location_body_def geocode_attempts.simps geo_flaky_def world0_def)
  show ?thesis
    by (rule conjI [OF run geocode_location_retry_policy [OF run]])
qed

text \<open>
  Claim C4 as stated fails: a query error is neither a timeout nor the service being
  unavailable, yet it is not surfaced at once: the name is sent three times and the
  failure ends in the warning of the exhausted attempts.
\<close>

theorem bad_query_retried_counterexample:
  "geo_bad_query ''Par/is'' 10 0 = Raises (GeocoderServiceError GeocoderQueryError ''bad request'')
   \<and> \<not> timeout_or_unavailable (geo_bad_query ''Par/is'' 10 0)
   \<and> geocode_location_body geo_bad_query ''Par/is'' 3 10 world0 =
       (None, world0\<lparr>net_calls := [''Par/is'', ''Par/is'', ''Par/is''],
                     sidebar := [SidebarWarning ''Par/is'' 3 ''bad request'']\<rparr>)"
  by (simp add: geocode_location_body_def geocode_attempts.simps geo_bad_query_def world0_def)

text \<open>
  Claim C5. With both coordinates present the map is centred on the destination, has
  exactly two markers, the start first and the destination second with the red icon, and
  \<open>fit_bounds\<close> is called on the pair start, destination.
\<close>
theorem main_map_both_present:
  "main_map starting_location destination (Some s) (Some d) =
     Some \<lparr>map_location = (latitude d, longitude d), zoom_start = 10,
           markers = [\<lparr>position = (latitude s, longitude s), tooltip = starting_location,
                        icon_color = None\<rparr>,
                      \<lparr>position = (latitude d, longitude d), tooltip = destination,
                        icon_color = Some ''red''\<rparr>],
           fit_bounds = Some ((latitude s, longitude s), (latitude d, longitude d))\<rparr>"
  by (simp add: main_map_def coords_def)

theorem main_map_both_present_witness:
  "main_map ''Paris'' ''Lyon'' (Some paris) (Some lyon) =
     Some \<lparr>map_location = (45.764, 4.8357), zoom_start = 10,
           markers = [\<lparr>position = (48.8566, 2.3522), tooltip = ''Paris'', icon_color = None\<rparr>,
                      \<lparr>position = (45.764, 4.8357), tooltip = ''Lyon'', icon_color = Some ''red''\<rparr>],
           fit_bounds = Some ((48.8566, 2.3522), (45.764, 4.8357))\<rparr>"
  using main_map_both_present [of "''Paris''" "''Lyon''" paris lyon]
  by (simp add: paris_def lyon_def)

text \<open>
  Claim C6. With exactly one coordinate present the map is centred on it with zoom 10, has
  exactly one marker, at that coordinate, and \<open>fit_bounds\<close> is not called.
\<close>
theorem main_map_one_present:
  "main_map starting_location destination (Some s) None =
     Some \<lparr>map_location = (latitude s, longitude s), zoom_start = 10,
           markers = [\<lparr>position = (latitude s, longitude s), tooltip = starting_location,
                        icon_color = None\<rparr>],
           fit_bounds = None\<rparr>
   \<and> main_map starting_location destination None (Some d) =
     Some \<lparr>map_location = (latitude d, longitude d), zoom_start = 10,
           markers = [\<lparr>position = (latitude d, longitude d), tooltip = destination,
                        icon_color = Some ''red''\<rparr>],
           fit_bounds = None\<rparr>"
  by (simp add: main_map_def coords_def)

theorem main_map_one_present_witness:
  "main_map ''Paris'' [] (Some paris) None =
     Some \<lparr>map_location = (48.8566, 2.3522), zoom_start = 10,
           markers = [\<lparr>position = (48.8566, 2.3522), tooltip = ''Paris'', icon_color = None\<rparr>],
           fit_bounds = None\<rparr>
   \<and> main_map ''Paris'' ''Lyon'' None (Some lyon) =
     Some \<lparr>map_location = (45.764, 4.8357), zoom_start = 10,
           markers = [\<lparr>position = (45.764, 4.8357), tooltip = ''Lyon'', icon_color = Some ''red''\<rparr>],
           fit_bounds = None\<rparr>"
  using main_map_one_present [of "''Paris''" "[]" paris]
    main_map_one_present [of "''Paris''" "''Lyon''" _ lyon]
  by (simp add: paris_def lyon_def)

text \<open>
  Claim C7. With both coordinates absent no map is built, and the page shows the
  informational prompt instead; this is what happens when both inputs are empty.
\<close>
theorem main_map_none_present:
  "main_map starting_location destination None None = None
   \<and> main_display starting_location destination None None itin =
       [StInfo ''Enter a starting location or destination to see the map.'']
   \<and> main_explore geo [] [] w =
       ([StInfo ''Enter a starting location or destination to see the map.''], w)"
  by (simp add: main_map_def main_display_def main_explore_def main_geocode_def)

theorem main_map_none_present_witness:
  "main_map ''Atlantis'' ''Lemuria'' None None = None
   \<and> main_display ''Atlantis'' ''Lemuria'' None None (Some ''Day 1'') =
       [StInfo ''Enter a starting location or destination to see the map.'']
   \<and> main_explore geo_atlas [] [] world0 =
       ([StInfo ''Enter a starting location or destination to see the map.''], world0)"
  by (rule main_map_none_present)

text \<open>
  Claim C9. An empty input resolves to the absent value \<open>None\<close> (the only failure value
  the program has) at once: no network call, no cache write, no message; the state is
  unchanged.
\<close>
theorem main_geocode_empty:
  "main_geocode geo [] w = (None, w)
   \<and> net_calls (snd (main_geocode geo [] w)) = net_calls w
   \<and> cache (snd (main_geocode geo [] w)) = cache w
   \<and> sidebar (snd (main_geocode geo [] w)) = sidebar w"
  by (simp add: main_geocode_def)

theorem main_geocode_empty_witness:
  "main_geocode geo_anywhere [] world0 = (None, world0)
   \<and> net_calls (snd (main_geocode geo_anywhere [] world0)) = net_calls world0
   \<and> cache (snd (main_geocode geo_anywhere [] world0)) = cache world0
   \<and> sidebar (snd (main_geocode geo_anywhere [] world0)) = sidebar world0"
  by (rule main_geocode_empty)

text \<open>
  Claim C8. After a name was resolved to a coordinate by a lookup (it was not cached
  before), a later resolution of the same name, in any state that still holds that entry
  and whose clock is within 3600 seconds of the first resolution, returns the same
  coordinate and leaves the state as it is: no network call, whatever the service would
  answer. Entries are keyed by the exact name: resolving one name leaves the entry of
  every other name as it was, and its result does not depend on what is stored under
  another name.
\<close>
theorem cache_hit_and_keying:
  "(cache_lookup w x = None \<and> main_geocode geo x w = (Some c, w1)
      \<and> cache w2 x = cache w1 x \<and> clock w2 < clock w + 3600
      \<longrightarrow> main_geocode geo' x w2 = (Some c, w2))
   \<and> (x \<noteq> y \<and> main_geocode geo y wa = (r, wa')
      \<longrightarrow> cache wa' x = cache wa x
        \<and> main_geocode geo y (wa\<lparr>cache := (cache wa)(x := e)\<rparr>) =
            (r, wa'\<lparr>cache := (cache wa')(x := e)\<rparr>))"
  using cache_hit_again [of w x geo c w1 w2 geo'] main_geocode_other_key [of x y geo wa r wa' e]
  by blast

theorem cache_hit_and_keying_witness:
  "cache_lookup world0 ''Paris'' = None
   \<and> main_geocode geo_atlas ''Paris'' world0 = (Some paris, world_paris_cached)
   \<and> cache (world_both_cached\<lparr>clock := 3599\<rparr>) ''Paris'' = cache world_paris_cached ''Paris''
   \<and> clock (world_both_cached\<lparr>clock := 3599\<rparr>) < clock world0 + 3600
   \<and> main_geocode geo_down ''Paris'' (world_both_cached\<lparr>clock := 3599\<rparr>) =
       (Some paris, world_both_cached\<lparr>clock := 3599\<rparr>)
   \<and> ''Paris'' \<noteq> ''paris''
   \<and> main_geocode geo_atlas ''paris'' world_paris_cached = (None, world_both_cached)
   \<and> cache world_both_cached ''Paris'' = cache world_paris_cached ''Paris''
   \<and> main_geocode geo_atlas ''paris''
        (world_paris_cached\<lparr>cache := (cache world_paris_cached)(''Paris'' := None)\<rparr>) =
       (None, world_both_cached\<lparr>cache := (cache world_both_cached)(''Paris'' := None)\<rparr>)"
proof -
  have h1: "cache_lookup world0 ''Paris'' = None" by (rule world0_miss)
  have h2: "main_geocode geo_atlas ''Paris'' world0 = (Some paris, world_paris_cached)"
    unfolding world_paris_cached_def by (rule run_atlas_paris)
  have h3: "cache (world_both_cached\<lparr>clock := 3599\<rparr>) ''Paris'' = cache world_paris_cached ''Paris''"
    by (simp add: world_both_cached_def)
  have h4: "clock (world_both_cached\<lparr>clock := 3599\<rparr>) < clock world0 + 3600"
    by simp
  have h5: "''Paris'' \<noteq> ''paris''" by simp
  note h6 = run_atlas_lowercase_after
  from cache_hit_and_keying [of world0 "''Paris''" geo_atlas paris world_paris_cached
      "world_both_cached\<lparr>clock := 3599\<rparr>" geo_down "''paris''" world_paris_cached None
      world_both_cached None]
    h1 h2 h3 h4 h5 h6
  show ?thesis by blast
qed

text \<open>
  Claim C10. For a non-empty name that is not cached, when the service answers the first
  attempt with no match, the resolution returns the absent value \<open>None\<close> after that
  single network call and writes no warning and no error. The caller cannot tell this
  outcome from the others: when all three attempts end in a retryable failure
  (exhausted), and when the first attempt raises any other exception (service error),
  the value returned is the same \<open>None\<close>.
\<close>
theorem not_found_is_silent:
  assumes "q \<noteq> []" and "cache_lookup w q = None"
  shows "(geo q 10 (length (net_calls w)) = Returns None \<longrightarrow>
            fst (main_geocode geo q w) = None
            \<and> net_calls (snd (main_geocode geo q w)) = net_calls w @ [q]
            \<and> sidebar (snd (main_geocode geo q w)) = sidebar w)
       \<and> ((\<forall>i<3. retryable (geo q 10 (length (net_calls w) + i))) \<longrightarrow>
            fst (main_geocode geo q w) = None)
       \<and> ((\<exists>e. geo q 10 (length (net_calls w)) = Raises (OtherException e)) \<longrightarrow>
            fst (main_geocode geo q w) = None)"
proof (intro conjI impI)
  assume nf: "geo q 10 (length (net_calls w)) = Returns None"
  from miss_result [OF assms body_not_found [of geo q w, OF nf]]
  show "fst (main_geocode geo q w) = None"
    and "net_calls (snd (main_geocode geo q w)) = net_calls w @ [q]"
    and "sidebar (snd (main_geocode geo q w)) = sidebar w"
    by simp_all
next
  assume "\<forall>i<3. retryable (geo q 10 (length (net_calls w) + i))"
  then have "fst (geocode_location_body geo q 3 10 w) = None"
    by (intro body_exhausted) simp
  with miss_result(1) [OF assms, of geo] show "fst (main_geocode geo q w) = None"
    by (cases "geocode_location_body geo q 3 10 w") simp
next
  assume "\<exists>e. geo q 10 (length (net_calls w)) = Raises (OtherException e)"
  then have "fst (geocode_location_body geo q 3 10 w) = None"
    by (auto dest: body_other_exception)
  with miss_result(1) [OF assms, of geo] show "fst (main_geocode geo q w) = None"
    by (cases "geocode_location_body geo q 3 10 w") simp
qed

theorem not_found_is_silent_witness:
  "''Atlantis'' \<noteq> [] \<and> cache_lookup world0 ''Atlantis'' = None
   \<and> geo_atlas ''Atlantis'' 10 (length (net_calls world0)) = Returns None
   \<and> fst (main_geocode geo_atlas ''Atlantis'' world0) = None
   \<and> net_calls (snd (main_geocode geo_atlas ''Atlantis'' world0)) = net_calls world0 @ [''Atlantis'']
   \<and> sidebar (snd (main_geocode geo_atlas ''Atlantis'' world0)) = sidebar world0
   \<and> retryable (geo_down ''Atlantis'' 10 (length (net_calls world0) + 0))
   \<and> retryable (geo_down ''Atlantis'' 10 (length (net_calls world0) + 1))
   \<and> retryable (geo_down ''Atlantis'' 10 (length (net_calls world0) + 2))
   \<and> fst (main_geocode geo_down ''Atlantis'' world0) = None
   \<and> (\<exists>e. geo_broken ''Atlantis'' 10 (length (net_calls world0)) = Raises (OtherException e))
   \<and> fst (main_geocode geo_broken ''Atlantis'' world0) = None"
proof -
  have ne: "''Atlantis'' \<noteq> []" by simp
  have nf: "geo_atlas ''Atlantis'' 10 (length (net_calls world0)) = Returns None"
    by (simp add: geo_atlas_def)
  have ex: "\<forall>i<3. retryable (geo_down ''Atlantis'' 10 (length (net_calls world0) + i))"
    by (simp add: geo_down_def)
  have ot: "\<exists>e. geo_broken ''Atlantis'' 10 (length (net_calls world0)) = Raises (OtherException e)"
    by (simp add: geo_broken_def world0_def)
  have ex': "retryable (geo_down ''Atlantis'' 10 (length (net_calls world0) + i))" for i
    by (simp add: geo_down_def)
  show ?thesis
    using ne nf ex ex' ot world0_miss [of "''Atlantis''"]
      not_found_is_silent [OF ne world0_miss, of geo_atlas]
      not_found_is_silent [OF ne world0_miss, of geo_down]
      not_found_is_silent [OF ne world0_miss, of geo_broken]
    by blast
qed

end
